theory Spec2Isabelle
  imports Complex_Main "HOL-Library.AList" "HOL-Library.Sublist"
begin

section \<open>Data model of PlexMediaExport.py\<close>

text \<open>
  The script exports a Plex library to a spreadsheet and reconciles, per show, the
  episode counts known to Plex with the ones known to TVMaze. Python dictionaries
  that the code iterates over are association lists in insertion order (lookup is
  \<open>map_of\<close>, assignment is \<open>AList.update\<close>); the cache dictionary, which is only
  looked up, assigned and deleted from, is a map. Python integers are \<open>int\<close>; a
  Python string is the list of the bytes of its UTF-8 encoding.
\<close>

text \<open>The fill patterns of \<open>STYLES['fills']\<close>; a cell without fill has \<open>None\<close>.\<close>

datatype fill = gray | green | red | yellow | fill_4k_specific_light_green | white

text \<open>The \<open>TypedDict\<close> classes of the script.\<close>

record TVMazeSeasonInfo =
  total_episodes :: int

record TVMazeShowInfo =
  total_seasons :: int
  seasons :: "(int \<times> TVMazeSeasonInfo) list"

record PlexSeasonData =
  episodes_in_plex :: int
  season_number :: int

record CacheEntry =
  timestamp :: int
  data :: "TVMazeShowInfo option"

text \<open>
  Exceptions are values. The script distinguishes \<open>requests.exceptions.RequestException\<close>
  and \<open>ValueError\<close> from every other \<open>Exception\<close>.
\<close>

datatype exn = RequestException | ValueError | OtherException

subsection \<open>Python built-ins used by the script\<close>

definition digit_char :: "nat \<Rightarrow> char" where
  "digit_char d = ''0123456789'' ! d"

text \<open>\<open>str(n)\<close> for a non-negative and for an arbitrary integer.\<close>

fun str_nat :: "nat \<Rightarrow> string" where
  "str_nat n = (if n < 10 then [digit_char n] else str_nat (n div 10) @ [digit_char (n mod 10)])"

declare str_nat.simps [simp del]

definition str_int :: "int \<Rightarrow> string" where
  "str_int i = (if i < 0 then CHR ''-'' # str_nat (nat (- i)) else str_nat (nat i))"

text \<open>The format \<open>{i:02d}\<close>: the decimal digits, padded with zeros to two characters,
  the sign first.\<close>

definition fmt_02d :: "int \<Rightarrow> string" where
  "fmt_02d i =
     (if i < 0 then CHR ''-'' # str_nat (nat (- i))
      else if i < 10 then CHR ''0'' # str_nat (nat i)
      else str_nat (nat i))"

text \<open>\<open>max(xs, default=d)\<close>.\<close>

definition max_default :: "int list \<Rightarrow> int \<Rightarrow> int" where
  "max_default xs d = (case xs of [] \<Rightarrow> d | x # rest \<Rightarrow> fold max rest x)"

text \<open>\<open>range(lo, hi)\<close>.\<close>

definition range_py :: "int \<Rightarrow> int \<Rightarrow> int list" where
  "range_py lo hi = [lo..hi - 1]"

section \<open>Completeness reconciliation\<close>

text \<open>\<open>plex_seasons_data.get(season_num, {}).get('episodes_in_plex', 0)\<close>\<close>

definition plex_episode_count :: "(int \<times> PlexSeasonData) list \<Rightarrow> int \<Rightarrow> int" where
  "plex_episode_count plex_seasons_data season_num =
     (case map_of plex_seasons_data season_num of
        None \<Rightarrow> 0
      | Some plex_s_data \<Rightarrow> episodes_in_plex plex_s_data)"

text \<open>
  \<open>_calculate_season_cell\<close>. A \<open>TVMazeShowInfo\<close> dictionary always has its two keys, so
  \<open>tvmaze_info\<close> is truthy exactly when it is not \<open>None\<close>, and a season entry, which
  has the key \<open>total_episodes\<close>, is truthy whenever it is present. The final
  \<open>else\<close> branch is shared by "no TVMaze information" and "TVMaze information without
  seasons", as in the source.
\<close>

definition calculate_season_cell ::
  "int \<Rightarrow> TVMazeShowInfo option \<Rightarrow> (int \<times> PlexSeasonData) list \<Rightarrow> string \<times> fill option" where
  "calculate_season_cell season_num tvmaze_info plex_seasons_data =
     (let plex_s_ep_count = plex_episode_count plex_seasons_data season_num;
          no_seasons_branch =
            (if plex_s_ep_count > 0 then (str_int plex_s_ep_count @ ''/?'', Some yellow)
             else if season_num > max_default (map fst plex_seasons_data) (- 1)
             then ('''', Some gray)
             else ('''', None))
      in case tvmaze_info of
           None \<Rightarrow> no_seasons_branch
         | Some info \<Rightarrow>
             if seasons info = [] then no_seasons_branch
             else
               (case map_of (seasons info) season_num of
                  Some tvmaze_s_data \<Rightarrow>
                    (let tvmaze_s_ep_count = total_episodes tvmaze_s_data;
                         season_text = str_int plex_s_ep_count @ ''/'' @ str_int tvmaze_s_ep_count
                     in if tvmaze_s_ep_count = 0
                        then (season_text, Some (if plex_s_ep_count = 0 then gray else yellow))
                        else if plex_s_ep_count \<ge> tvmaze_s_ep_count then (season_text, Some green)
                        else if plex_s_ep_count > 0 then (season_text, Some red)
                        else (season_text, None))
                | None \<Rightarrow>
                    if plex_s_ep_count > 0 then (str_int plex_s_ep_count @ ''/?'', Some yellow)
                    else ('''', Some gray)))"

text \<open>
  \<open>_calculate_series_completion\<close>. The generator sums count the keys above zero; the
  \<open>for\<close> loop over the TVMaze seasons skips season 0 and adds one for every season that
  Plex has with at least as many episodes as TVMaze lists, when TVMaze lists any.
\<close>

definition count_complete_step ::
  "(int \<times> PlexSeasonData) list \<Rightarrow> int \<times> TVMazeSeasonInfo \<Rightarrow> int \<Rightarrow> int" where
  "count_complete_step plex_seasons_data item complete_count =
     (case item of (s_num, tvmaze_s_data) \<Rightarrow>
        if s_num = 0 then complete_count
        else
          (case map_of plex_seasons_data s_num of
             None \<Rightarrow> complete_count
           | Some plex_s_data \<Rightarrow>
               if episodes_in_plex plex_s_data \<ge> total_episodes tvmaze_s_data
                  \<and> total_episodes tvmaze_s_data > 0
               then complete_count + 1
               else complete_count))"

definition calculate_series_completion ::
  "TVMazeShowInfo option \<Rightarrow> (int \<times> PlexSeasonData) list \<Rightarrow> string \<times> fill option" where
  "calculate_series_completion tvmaze_info plex_seasons_data =
     (case tvmaze_info of
        Some info \<Rightarrow>
          (let tvmaze_total_regular_seasons =
                 int (length (filter (\<lambda>s_num. s_num > 0) (map fst (seasons info))));
               complete_plex_regular_seasons_count =
                 fold (count_complete_step plex_seasons_data) (seasons info) 0;
               series_status_text =
                 str_int complete_plex_regular_seasons_count @ ''/''
                   @ str_int tvmaze_total_regular_seasons
           in if tvmaze_total_regular_seasons = 0 then (series_status_text, Some gray)
              else if complete_plex_regular_seasons_count \<ge> tvmaze_total_regular_seasons
              then (series_status_text, Some green)
              else if complete_plex_regular_seasons_count > 0 then (series_status_text, Some red)
              else (series_status_text, None))
      | None \<Rightarrow>
          (let plex_regular_season_count =
                 int (length (filter (\<lambda>s_num. s_num > 0) (map fst plex_seasons_data)))
           in (str_int plex_regular_season_count @ ''/?'',
               if plex_regular_season_count > 0 then Some yellow else None)))"

text \<open>
  The overall ratio in the words of the specification: the denominator is the number of
  regular seasons (season number above zero) that TVMaze knows, the numerator the number
  of those whose local count reaches a positive remote count.
\<close>

definition spec_denominator :: "TVMazeShowInfo \<Rightarrow> nat" where
  "spec_denominator info = card {s \<in> fst ` set (seasons info). 0 < s}"

definition remote_count :: "TVMazeShowInfo \<Rightarrow> int \<Rightarrow> int" where
  "remote_count info s = (case map_of (seasons info) s of None \<Rightarrow> 0 | Some r \<Rightarrow> total_episodes r)"

definition spec_numerator :: "TVMazeShowInfo \<Rightarrow> (int \<times> PlexSeasonData) list \<Rightarrow> nat" where
  "spec_numerator info plex_seasons_data =
     card {s \<in> fst ` set (seasons info). 0 < s \<and> 0 < remote_count info s \<and>
             remote_count info s \<le> plex_episode_count plex_seasons_data s}"

section \<open>Environment and mutable state\<close>

text \<open>
  Everything outside the script is an oracle indexed by how often it has been consulted:
  \<open>clock\<close> gives the value of the k-th call of \<open>datetime.now()\<close> (in microseconds),
  the three TVMaze endpoints give the outcome of an HTTP exchange that is the k-th
  request of the run. An exchange either raises (the request itself, \<open>raise_for_status\<close>,
  the JSON decoding, or reading a body that does not have the documented shape) or
  yields what the script reads from the body: the show id of a lookup (\<open>None\<close> for a
  \<open>null\<close> body or a missing id), the show ids of the ranked search results, and the
  season number of every listed episode (\<open>None\<close> where an episode has none).
  \<open>user_show_fields\<close> is the comma-separated environment variable, split and stripped,
  \<open>None\<close> when it is unset or empty.
\<close>

datatype request = LookupShows string | SearchShows string | ShowEpisodes int

record env =
  clock :: "nat \<Rightarrow> int"
  lookup_shows :: "nat \<Rightarrow> string \<Rightarrow> exn + int option"
  search_shows :: "nat \<Rightarrow> string \<Rightarrow> exn + int option list"
  show_episodes :: "nat \<Rightarrow> int \<Rightarrow> exn + int option list"
  user_show_fields :: "string list option"

text \<open>
  The mutable state: the global cache dictionary, the number of clock reads so far, the
  HTTP requests sent so far and the delays slept so far (in seconds).
\<close>

record world =
  persistent_tvmaze_cache :: "string \<rightharpoonup> CacheEntry"
  clock_reads :: nat
  http_log :: "request list"
  sleeps :: "rat list"

definition datetime_now :: "env \<Rightarrow> world \<Rightarrow> int \<times> world" where
  "datetime_now e w = (clock e (clock_reads w), w\<lparr>clock_reads := Suc (clock_reads w)\<rparr>)"

text \<open>\<open>timedelta.days\<close> of a difference given in microseconds: Python normalises a
  \<open>timedelta\<close> so that the days are the floor.\<close>

definition timedelta_days :: "int \<Rightarrow> int" where
  "timedelta_days delta = delta div 86400000000"

definition time_sleep :: "rat \<Rightarrow> world \<Rightarrow> world" where
  "time_sleep delay w = w\<lparr>sleeps := sleeps w @ [delay]\<rparr>"

subsection \<open>Configuration constants\<close>

definition TVMAZE_CACHE_SIZE :: nat where
  "TVMAZE_CACHE_SIZE = 256"

definition TVMAZE_MAX_RETRIES :: nat where
  "TVMAZE_MAX_RETRIES = 3"

definition TVMAZE_RETRY_DELAY :: rat where
  "TVMAZE_RETRY_DELAY = 1"

definition TVMAZE_CACHE_MAX_AGE_DAYS :: int where
  "TVMAZE_CACHE_MAX_AGE_DAYS = 30"

definition ALL_POSSIBLE_SHOW_FIELDS :: "string list" where
  "ALL_POSSIBLE_SHOW_FIELDS =
     [''Title'', ''Year'', ''Studio'', ''ContentRating'', ''Summary'', ''Tagline'',
      ''AddedAt'', ''LastViewedAt'', ''OriginallyAvailableAt'',
      ''AudienceRating'', ''Rating'', ''Collections'', ''Genres'', ''Labels'',
      ''ViewCount'', ''SkipCount'']"

definition DEFAULT_SHOW_FIELDS :: "string list" where
  "DEFAULT_SHOW_FIELDS = [''Title'', ''Year'', ''Studio'', ''ContentRating'', ''Summary'']"

definition SELECTED_SHOW_FIELDS :: "env \<Rightarrow> string list" where
  "SELECTED_SHOW_FIELDS e =
     (case user_show_fields e of
        None \<Rightarrow> DEFAULT_SHOW_FIELDS
      | Some temp_selected_show_fields \<Rightarrow>
          (let selected = filter (\<lambda>field. field \<in> set ALL_POSSIBLE_SHOW_FIELDS)
                            temp_selected_show_fields
           in if selected = [] then DEFAULT_SHOW_FIELDS else selected))"

section \<open>Retry decorator\<close>

text \<open>
  \<open>retry_on_failure(max_retries, base_delay, backoff_factor)(func)\<close>. The loop runs over
  \<open>range(max_retries + 1)\<close>; a \<open>RequestException\<close> raised by \<open>func\<close> is followed by a
  sleep and another attempt while \<open>attempt < max_retries\<close> and is raised again on the
  last attempt; any other exception is raised again at once; a normal return of \<open>func\<close>,
  whatever the value, ends the loop. The delays 1, 2, 4 of the default arguments are
  exact in floating point.
\<close>

fun retry_loop ::
  "(world \<Rightarrow> (exn + 'a option) \<times> world) \<Rightarrow> nat \<Rightarrow> rat \<Rightarrow> nat list \<Rightarrow> rat \<Rightarrow> world
     \<Rightarrow> (exn + 'a option) \<times> world" where
  "retry_loop func max_retries backoff_factor [] delay w = (Inr None, w)"
| "retry_loop func max_retries backoff_factor (attempt # rest) delay w =
     (case func w of
        (Inr result, w1) \<Rightarrow> (Inr result, w1)
      | (Inl e, w1) \<Rightarrow>
          if e = RequestException then
            if attempt < max_retries
            then retry_loop func max_retries backoff_factor rest (delay * backoff_factor)
                   (time_sleep delay w1)
            else (Inl e, w1)
          else (Inl e, w1))"

definition retry_on_failure ::
  "nat \<Rightarrow> rat \<Rightarrow> rat \<Rightarrow> (world \<Rightarrow> (exn + 'a option) \<times> world) \<Rightarrow> world
     \<Rightarrow> (exn + 'a option) \<times> world" where
  "retry_on_failure max_retries base_delay backoff_factor func w =
     retry_loop func max_retries backoff_factor [0..<max_retries + 1] base_delay w"

section \<open>Persistent cache\<close>

text \<open>\<open>get_from_cache\<close>: a missing key is a miss; an entry older than the maximum age is
  deleted and is a miss; otherwise the stored data is returned, which may be \<open>None\<close>.\<close>

definition get_from_cache :: "env \<Rightarrow> string \<Rightarrow> world \<Rightarrow> TVMazeShowInfo option \<times> world" where
  "get_from_cache e key w =
     (case persistent_tvmaze_cache w key of
        None \<Rightarrow> (None, w)
      | Some entry \<Rightarrow>
          (let (now, w1) = datetime_now e w;
               age_days = timedelta_days (now - timestamp entry)
           in if age_days > TVMAZE_CACHE_MAX_AGE_DAYS
              then (None, w1\<lparr>persistent_tvmaze_cache := (persistent_tvmaze_cache w1)(key := None)\<rparr>)
              else (data entry, w1)))"

definition add_to_cache :: "env \<Rightarrow> string \<Rightarrow> TVMazeShowInfo option \<Rightarrow> world \<Rightarrow> world" where
  "add_to_cache e key d w =
     (let (now, w1) = datetime_now e w
      in w1\<lparr>persistent_tvmaze_cache :=
               (persistent_tvmaze_cache w1)(key \<mapsto> \<lparr>timestamp = now, data = d\<rparr>)\<rparr>)"

section \<open>TVMaze client\<close>

definition log_request :: "request \<Rightarrow> world \<Rightarrow> world" where
  "log_request req w = w\<lparr>http_log := http_log w @ [req]\<rparr>"

text \<open>The first request of \<open>_fetch_tvmaze_show_info_from_api\<close> and the extraction of the
  show id: a lookup by IMDB id reads the id of the returned show, a search by title the id
  of the first result.\<close>

definition request_show_id :: "env \<Rightarrow> string \<Rightarrow> bool \<Rightarrow> world \<Rightarrow> (exn + int option) \<times> world" where
  "request_show_id e search_term is_imdb_id w =
     (if is_imdb_id
      then (lookup_shows e (length (http_log w)) search_term, log_request (LookupShows search_term) w)
      else ((case search_shows e (length (http_log w)) search_term of
               Inl ex \<Rightarrow> Inl ex
             | Inr [] \<Rightarrow> Inr None
             | Inr (first # others) \<Rightarrow> Inr first),
            log_request (SearchShows search_term) w))"

text \<open>The aggregation loop: \<open>seasons_data.setdefault(n, {'total_episodes': 0})['total_episodes'] += 1\<close>
  for every episode that has a season number.\<close>

definition count_episode ::
  "int option \<Rightarrow> (int \<times> TVMazeSeasonInfo) list \<Rightarrow> (int \<times> TVMazeSeasonInfo) list" where
  "count_episode season_num seasons_data =
     (case season_num of
        None \<Rightarrow> seasons_data
      | Some n \<Rightarrow>
          AList.update n
            \<lparr>total_episodes =
               (case map_of seasons_data n of None \<Rightarrow> 0 | Some d \<Rightarrow> total_episodes d) + 1\<rparr>
            seasons_data)"

text \<open>The three \<open>except\<close> clauses of the function log the error and fall through to
  \<open>return None\<close>.\<close>

definition fetch_except :: "exn \<Rightarrow> exn + TVMazeShowInfo option" where
  "fetch_except ex =
     (case ex of
        RequestException \<Rightarrow> Inr None
      | ValueError \<Rightarrow> Inr None
      | OtherException \<Rightarrow> Inr None)"

text \<open>The body of \<open>_fetch_tvmaze_show_info_from_api\<close>, before decoration. A show id is
  used when it is truthy, that is, present and not zero.\<close>

definition fetch_tvmaze_show_info_from_api_body ::
  "env \<Rightarrow> string \<Rightarrow> bool \<Rightarrow> world \<Rightarrow> (exn + TVMazeShowInfo option) \<times> world" where
  "fetch_tvmaze_show_info_from_api_body e search_term is_imdb_id w =
     (case request_show_id e search_term is_imdb_id w of
        (Inl ex, w1) \<Rightarrow> (fetch_except ex, w1)
      | (Inr show_id, w1) \<Rightarrow>
          (case show_id of
             None \<Rightarrow> (Inr None, w1)
           | Some i \<Rightarrow>
               if i = 0 then (Inr None, w1)
               else
                 (let episodes_response = show_episodes e (length (http_log w1)) i;
                      w2 = log_request (ShowEpisodes i) w1
                  in case episodes_response of
                       Inl ex \<Rightarrow> (fetch_except ex, w2)
                     | Inr episodes \<Rightarrow>
                         if episodes = [] then (Inr (Some \<lparr>total_seasons = 0, seasons = []\<rparr>), w2)
                         else
                           (let seasons_data = fold count_episode episodes []
                            in if seasons_data = []
                               then (Inr (Some \<lparr>total_seasons = 0, seasons = []\<rparr>), w2)
                               else (Inr (Some \<lparr>total_seasons = max_default (map fst seasons_data) 0,
                                                 seasons = seasons_data\<rparr>), w2)))))"

text \<open>\<open>_fetch_tvmaze_show_info_from_api\<close> as the module defines it: the body under
  \<open>@retry_on_failure()\<close> with the default arguments.\<close>

definition fetch_tvmaze_show_info_from_api ::
  "env \<Rightarrow> string \<Rightarrow> bool \<Rightarrow> world \<Rightarrow> (exn + TVMazeShowInfo option) \<times> world" where
  "fetch_tvmaze_show_info_from_api e search_term is_imdb_id =
     retry_on_failure TVMAZE_MAX_RETRIES TVMAZE_RETRY_DELAY 2
       (fetch_tvmaze_show_info_from_api_body e search_term is_imdb_id)"

text \<open>\<open>get_tvmaze_show_info\<close>: the cache first, then the API; the result is stored when it
  is not \<open>None\<close>. An exception of the fetch would pass through.\<close>

definition get_tvmaze_show_info ::
  "env \<Rightarrow> string \<Rightarrow> bool \<Rightarrow> world \<Rightarrow> (exn + TVMazeShowInfo option) \<times> world" where
  "get_tvmaze_show_info e search_term is_imdb_id w =
     (let cache_key = (if is_imdb_id then ''imdb:'' @ search_term else ''title:'' @ search_term);
          (cached_result, w1) = get_from_cache e cache_key w
      in case cached_result of
           Some info \<Rightarrow> (Inr (Some info), w1)
         | None \<Rightarrow>
             (case fetch_tvmaze_show_info_from_api e search_term is_imdb_id w1 of
                (Inl ex, w2) \<Rightarrow> (Inl ex, w2)
              | (Inr result, w2) \<Rightarrow>
                  (Inr result,
                   if result \<noteq> None then add_to_cache e cache_key result w2 else w2)))"

section \<open>Processing the shows of a library\<close>

text \<open>
  What the script reads from a Plex show object. \<open>guids\<close> and \<open>seasons()\<close> are loaded
  from the server on demand and can raise; \<open>field_value\<close> is what the field processor
  registered under a name returns for this show, or the exception it raises. Values of
  fields are taken in their string form.
\<close>

record plex_season =
  seasonNumber :: "int option"
  leafCount :: int

record show_obj =
  title :: string
  originalTitle :: "string option"
  guids :: "exn + string list"
  show_seasons :: "exn + plex_season list"
  field_value :: "string \<Rightarrow> exn + string"

text \<open>The dictionary that \<open>process_single_show\<close> returns: the selected metadata fields
  and the three fixed keys, of which \<open>max_seasons\<close> is popped later.\<close>

record show_dict =
  metadata :: "(string \<times> string) list"
  seasons_in_plex :: "(int \<times> PlexSeasonData) list"
  tvmaze_info :: "TVMazeShowInfo option"
  max_seasons :: "int option"

text \<open>The keys of \<open>_get_show_field_processors()\<close>.\<close>

definition show_field_processors :: "string list" where
  "show_field_processors =
     [''Title'', ''Year'', ''Studio'', ''ContentRating'', ''Summary'', ''Tagline'',
      ''AddedAt'', ''LastViewedAt'', ''OriginallyAvailableAt'', ''AudienceRating'',
      ''Rating'', ''Collections'', ''Genres'', ''Labels'', ''ViewCount'', ''SkipCount'']"

definition process_show_field :: "show_obj \<Rightarrow> string \<Rightarrow> string" where
  "process_show_field show field_name =
     (if field_name \<in> set show_field_processors
      then (case field_value show field_name of
              Inl ex \<Rightarrow> ''Error Processing Field''
            | Inr v \<Rightarrow> v)
      else ''N/A'')"

definition process_show_metadata :: "env \<Rightarrow> show_obj \<Rightarrow> (string \<times> string) list" where
  "process_show_metadata e show =
     fold (\<lambda>field_name show_metadata.
             AList.update field_name (process_show_field show field_name) show_metadata)
       (SELECTED_SHOW_FIELDS e) []"

text \<open>\<open>s.split(sep)[-1]\<close>: what follows the last occurrence of the separator found when
  scanning from the left.\<close>

function split_last :: "string \<Rightarrow> string \<Rightarrow> string \<Rightarrow> string" where
  "split_last sep acc [] = acc"
| "split_last sep acc (c # cs) =
     (if sep \<noteq> [] \<and> prefix sep (c # cs)
      then split_last sep [] (drop (length sep) (c # cs))
      else split_last sep (acc @ [c]) cs)"
  by pat_completeness auto
termination
  by (relation "measure (\<lambda>(sep, acc, s). length s)") auto

text \<open>
  The characters that \<open>str.strip()\<close> removes, in UTF-8: U+0009 to U+000D, U+001C to
  U+0020, U+0085, U+00A0, U+1680, U+2000 to U+200A, U+2028, U+2029, U+202F, U+205F and
  U+3000.
\<close>

definition whitespace :: "string list" where
  "whitespace =
     [[CHR 0x09], [CHR 0x0A], [CHR 0x0B], [CHR 0x0C], [CHR 0x0D],
      [CHR 0x1C], [CHR 0x1D], [CHR 0x1E], [CHR 0x1F], [CHR 0x20],
      [CHR 0xC2, CHR 0x85], [CHR 0xC2, CHR 0xA0], [CHR 0xE1, CHR 0x9A, CHR 0x80],
      [CHR 0xE2, CHR 0x80, CHR 0x80], [CHR 0xE2, CHR 0x80, CHR 0x81],
      [CHR 0xE2, CHR 0x80, CHR 0x82], [CHR 0xE2, CHR 0x80, CHR 0x83],
      [CHR 0xE2, CHR 0x80, CHR 0x84], [CHR 0xE2, CHR 0x80, CHR 0x85],
      [CHR 0xE2, CHR 0x80, CHR 0x86], [CHR 0xE2, CHR 0x80, CHR 0x87],
      [CHR 0xE2, CHR 0x80, CHR 0x88], [CHR 0xE2, CHR 0x80, CHR 0x89],
      [CHR 0xE2, CHR 0x80, CHR 0x8A], [CHR 0xE2, CHR 0x80, CHR 0xA8],
      [CHR 0xE2, CHR 0x80, CHR 0xA9], [CHR 0xE2, CHR 0x80, CHR 0xAF],
      [CHR 0xE2, CHR 0x81, CHR 0x9F], [CHR 0xE3, CHR 0x80, CHR 0x80]]"

text \<open>Removing the leading characters of a string that are among the given ones.\<close>

function strip_left :: "string list \<Rightarrow> string \<Rightarrow> string" where
  "strip_left spaces s =
     (case find (\<lambda>sp. sp \<noteq> [] \<and> prefix sp s) spaces of
        None \<Rightarrow> s
      | Some sp \<Rightarrow> strip_left spaces (drop (length sp) s))"
  by pat_completeness auto
termination
proof (relation "measure (\<lambda>(spaces, s). length s)")
  show "wf (measure (\<lambda>(spaces, s). length s))" by simp
next
  fix spaces :: "string list" and s sp :: string
  assume "find (\<lambda>sp. sp \<noteq> [] \<and> prefix sp s) spaces = Some sp"
  then have "sp \<noteq> []" and "prefix sp s"
    by (auto simp add: find_Some_iff)
  then have "0 < length sp" and "length sp \<le> length s"
    by (simp_all add: prefix_length_le)
  then have "length s - length sp < length s" by arith
  then show "((spaces, drop (length sp) s), (spaces, s)) \<in> measure (\<lambda>(spaces, s). length s)"
    by simp
qed

declare strip_left.simps [simp del]

text \<open>\<open>s.strip()\<close>: the white space is removed at the front, and at the back by the same
  scan over the reversed string.\<close>

definition str_strip :: "string \<Rightarrow> string" where
  "str_strip s = rev (strip_left (map rev whitespace) (rev (strip_left whitespace s)))"

definition imdb_id_of :: "string list \<Rightarrow> string option" where
  "imdb_id_of gs =
     (case find (prefix ''imdb://'') gs of
        None \<Rightarrow> None
      | Some imdb_id_full \<Rightarrow> Some (split_last ''imdb://'' [] imdb_id_full))"

definition add_plex_season ::
  "plex_season \<Rightarrow> (int \<times> PlexSeasonData) list \<Rightarrow> (int \<times> PlexSeasonData) list" where
  "add_plex_season s plex_seasons_data =
     (case seasonNumber s of
        None \<Rightarrow> plex_seasons_data
      | Some season_num_int \<Rightarrow>
          AList.update season_num_int
            \<lparr>episodes_in_plex = leafCount s, season_number = season_num_int\<rparr>
            plex_seasons_data)"

text \<open>The inner \<open>try\<close> around the season loop: a failing \<open>show_obj.seasons()\<close> is logged
  and leaves the dictionary empty.\<close>

definition plex_seasons_of :: "show_obj \<Rightarrow> (int \<times> PlexSeasonData) list" where
  "plex_seasons_of show =
     (case show_seasons show of
        Inl ex \<Rightarrow> []
      | Inr ss \<Rightarrow> fold add_plex_season ss [])"

text \<open>The \<open>try\<close> block of \<open>process_single_show\<close>: \<open>Inl\<close> is an exception that leaves
  the block. The lookup by IMDB id is made when an id was found and is not empty; the
  lookup by title when the first one gave nothing and the title, original title first,
  is not blank.\<close>

definition process_single_show_try :: "env \<Rightarrow> show_obj \<Rightarrow> world \<Rightarrow> (exn + show_dict) \<times> world" where
  "process_single_show_try e show w =
     (let show_metadata = process_show_metadata e show
      in case guids show of
           Inl ex \<Rightarrow> (Inl ex, w)
         | Inr gs \<Rightarrow>
             (let imdb_id = imdb_id_of gs
              in case (case imdb_id of
                         None \<Rightarrow> (Inr None, w)
                       | Some i \<Rightarrow> if i = [] then (Inr None, w)
                                   else get_tvmaze_show_info e i True w) of
                   (Inl ex, w1) \<Rightarrow> (Inl ex, w1)
                 | (Inr by_id, w1) \<Rightarrow>
                     (let search_title =
                            (case originalTitle show of
                               None \<Rightarrow> title show
                             | Some t \<Rightarrow> if t = [] then title show else t)
                      in case (if by_id = None \<and> search_title \<noteq> [] \<and> str_strip search_title \<noteq> []
                               then get_tvmaze_show_info e search_title False w1
                               else (Inr by_id, w1)) of
                           (Inl ex, w2) \<Rightarrow> (Inl ex, w2)
                         | (Inr found, w2) \<Rightarrow>
                             (let show_max_seasons =
                                    (case found of
                                       None \<Rightarrow> 0
                                     | Some info \<Rightarrow> total_seasons info);
                                  plex_seasons_data = plex_seasons_of show
                              in (Inr \<lparr>metadata = show_metadata,
                                       seasons_in_plex = plex_seasons_data,
                                       tvmaze_info = found,
                                       max_seasons = Some show_max_seasons\<rparr>, w2)))))"

text \<open>The record of the \<open>except\<close> clause.\<close>

definition minimal_show_data :: "show_obj \<Rightarrow> show_dict" where
  "minimal_show_data show =
     \<lparr>metadata = [(''Title'', title show)], seasons_in_plex = [], tvmaze_info = None,
      max_seasons = Some 0\<rparr>"

definition process_single_show :: "env \<Rightarrow> show_obj \<Rightarrow> world \<Rightarrow> show_dict \<times> world" where
  "process_single_show e show w =
     (case process_single_show_try e show w of
        (Inr combined_show_data, w1) \<Rightarrow> (combined_show_data, w1)
      | (Inl ex, w1) \<Rightarrow> (minimal_show_data show, w1))"

text \<open>\<open>executor.map\<close> returns the results in the order of the inputs. The workers are
  taken one after the other here, each starting from the state the previous one left.\<close>

fun executor_map :: "('a \<Rightarrow> world \<Rightarrow> 'b \<times> world) \<Rightarrow> 'a list \<Rightarrow> world \<Rightarrow> 'b list \<times> world" where
  "executor_map f [] w = ([], w)"
| "executor_map f (x # xs) w =
     (let (y, w1) = f x w; (ys, w2) = executor_map f xs w1 in (y # ys, w2))"

text \<open>One round of the result loop of \<open>get_show_details\<close>. Every show dictionary has
  keys and is therefore truthy; \<open>pop('max_seasons', 0)\<close> removes the key.\<close>

definition pop_max_seasons :: "show_dict \<Rightarrow> int \<times> show_dict" where
  "pop_max_seasons show_data =
     ((case max_seasons show_data of None \<Rightarrow> 0 | Some m \<Rightarrow> m),
      show_data\<lparr>max_seasons := None\<rparr>)"

definition collect_show_result :: "show_dict \<Rightarrow> show_dict list \<times> int \<Rightarrow> show_dict list \<times> int" where
  "collect_show_result show_data acc =
     (case acc of (processed_shows_data, max_seasons_overall) \<Rightarrow>
        (let (show_max, popped) = pop_max_seasons show_data
         in (processed_shows_data @ [popped], max max_seasons_overall show_max)))"

definition MAX_WORKER_THREADS :: nat where
  "MAX_WORKER_THREADS = 10"

text \<open>\<open>get_show_details\<close>. \<open>ThreadPoolExecutor\<close> raises a \<open>ValueError\<close> when it is given
  no worker, which happens for the empty list of shows.\<close>

definition get_show_details ::
  "env \<Rightarrow> show_obj list \<Rightarrow> world \<Rightarrow> (exn + show_dict list \<times> int) \<times> world" where
  "get_show_details e shows w =
     (let num_workers = min MAX_WORKER_THREADS (length shows)
      in if num_workers = 0 then (Inl ValueError, w)
         else (let (show_results, w1) = executor_map (process_single_show e) shows w
               in (Inr (fold collect_show_result show_results ([], 0)), w1)))"

text \<open>The state in which the worker of the i-th show starts.\<close>

definition world_before :: "env \<Rightarrow> show_obj list \<Rightarrow> world \<Rightarrow> nat \<Rightarrow> world" where
  "world_before e shows w i = snd (executor_map (process_single_show e) (take i shows) w)"

section \<open>Worksheet of the TV shows\<close>

definition generate_tv_show_headers :: "env \<Rightarrow> show_dict list \<Rightarrow> int \<Rightarrow> string list \<times> string list" where
  "generate_tv_show_headers e shows_data_full max_seasons_overall =
     (let base_headers = SELECTED_SHOW_FIELDS e;
          completion_header = ''Series Complete (Plex/TVMaze)'';
          has_specials = list_ex (\<lambda>show_dict. 0 \<in> set (map fst (seasons_in_plex show_dict)))
                           shows_data_full;
          season_headers_list =
            (if has_specials then [''S00''] else [])
              @ map (\<lambda>i. CHR ''S'' # fmt_02d i) (range_py 1 (max_seasons_overall + 1))
      in (base_headers @ [completion_header] @ season_headers_list, season_headers_list))"

text \<open>\<open>int(s)\<close> on an optionally signed string of decimal digits; anything else is a
  \<open>ValueError\<close> here (the other spellings Python accepts, with blanks or underscores, do
  not occur in a header).\<close>

definition digit_value :: "char \<Rightarrow> nat option" where
  "digit_value c =
     (let n = (of_char c :: nat) in if 48 \<le> n \<and> n \<le> 57 then Some (n - 48) else None)"

fun digits_value :: "string \<Rightarrow> nat \<Rightarrow> nat option" where
  "digits_value [] acc = Some acc"
| "digits_value (c # cs) acc =
     (case digit_value c of None \<Rightarrow> None | Some d \<Rightarrow> digits_value cs (acc * 10 + d))"

definition py_int :: "string \<Rightarrow> exn + int" where
  "py_int s =
     (let body = (if s \<noteq> [] \<and> (hd s = CHR ''-'' \<or> hd s = CHR ''+'') then tl s else s)
      in if body = [] then Inl ValueError
         else (case digits_value body 0 of
                 None \<Rightarrow> Inl ValueError
               | Some n \<Rightarrow> Inr (if s \<noteq> [] \<and> hd s = CHR ''-'' then - int n else int n)))"

text \<open>The season loop of \<open>_write_tv_show_row\<close>: one cell per season header, for the
  season number read from the header behind its first character.\<close>

fun write_season_cells ::
  "TVMazeShowInfo option \<Rightarrow> (int \<times> PlexSeasonData) list \<Rightarrow> string list
     \<Rightarrow> exn + (int \<times> string \<times> fill option) list" where
  "write_season_cells ti plex_seasons_data [] = Inr []"
| "write_season_cells ti plex_seasons_data (season_header_text # rest) =
     (case py_int (drop 1 season_header_text) of
        Inl ex \<Rightarrow> Inl ex
      | Inr season_num \<Rightarrow>
          (case write_season_cells ti plex_seasons_data rest of
             Inl ex \<Rightarrow> Inl ex
           | Inr cells \<Rightarrow>
               Inr ((season_num, calculate_season_cell season_num ti plex_seasons_data) # cells)))"

text \<open>The cells of a row, as value and fill: the selected fields, the series status and
  the season cells, each of these with the season number it was computed for.\<close>

record tv_show_row =
  field_cells :: "string list"
  status_cell :: "string \<times> fill option"
  season_cells :: "(int \<times> string \<times> fill option) list"

definition write_tv_show_row :: "env \<Rightarrow> show_dict \<Rightarrow> string list \<Rightarrow> exn + tv_show_row" where
  "write_tv_show_row e show_info_full season_headers_list =
     (case write_season_cells (tvmaze_info show_info_full) (seasons_in_plex show_info_full)
             season_headers_list of
        Inl ex \<Rightarrow> Inl ex
      | Inr cells \<Rightarrow>
          Inr \<lparr>field_cells =
                 map (\<lambda>field_name.
                        case map_of (metadata show_info_full) field_name of
                          None \<Rightarrow> ''N/A''
                        | Some v \<Rightarrow> v)
                   (SELECTED_SHOW_FIELDS e),
               status_cell =
                 calculate_series_completion (tvmaze_info show_info_full)
                   (seasons_in_plex show_info_full),
               season_cells = cells\<rparr>)"

section \<open>Sample runs\<close>

text \<open>The state at the start of a run without a cache file, a TVMaze that knows no show,
  a TVMaze whose first request fails with a network error and that answers every later
  request, and a family of distinct cache keys.\<close>

definition initial_world :: world where
  "initial_world = \<lparr>persistent_tvmaze_cache = Map.empty, clock_reads = 0, http_log = [], sleeps = []\<rparr>"

definition no_match_env :: env where
  "no_match_env =
     \<lparr>clock = (\<lambda>k. 1000000 * int k),
      lookup_shows = (\<lambda>k term. Inr None),
      search_shows = (\<lambda>k term. Inr []),
      show_episodes = (\<lambda>k i. Inr []),
      user_show_fields = None\<rparr>"

definition flaky_env :: env where
  "flaky_env =
     \<lparr>clock = (\<lambda>k. 1000000 * int k),
      lookup_shows = (\<lambda>k term. if k = 0 then Inl RequestException else Inr (Some 82)),
      search_shows = (\<lambda>k term. Inr [Some 82]),
      show_episodes = (\<lambda>k i. Inr [Some 1, Some 1, Some 2]),
      user_show_fields = None\<rparr>"

definition nth_title_key :: "nat \<Rightarrow> string" where
  "nth_title_key i = ''title:'' @ replicate i CHR ''x''"

text \<open>A TVMaze that answers every request with the same show of two seasons, a show
  that Plex serves completely and a show whose \<open>guids\<close> cannot be loaded.\<close>

definition steady_env :: env where
  "steady_env =
     \<lparr>clock = (\<lambda>k. 1000000 * int k),
      lookup_shows = (\<lambda>k term. Inr (Some 82)),
      search_shows = (\<lambda>k term. Inr [Some 82]),
      show_episodes = (\<lambda>k i. Inr [Some 1, Some 1, Some 2]),
      user_show_fields = Some [''Title'', ''Year'']\<rparr>"

definition alpha_show :: show_obj where
  "alpha_show =
     \<lparr>title = ''Alpha'', originalTitle = None,
      guids = Inr [''tvdb://121361'', ''imdb://tt0944947''],
      show_seasons = Inr [\<lparr>seasonNumber = Some 1, leafCount = 2\<rparr>],
      field_value = (\<lambda>f. if f = ''Title'' then Inr ''Alpha'' else Inl OtherException)\<rparr>"

definition broken_show :: show_obj where
  "broken_show =
     \<lparr>title = ''Beta'', originalTitle = None,
      guids = Inl OtherException,
      show_seasons = Inr [\<lparr>seasonNumber = Some 1, leafCount = 5\<rparr>],
      field_value = (\<lambda>f. Inr ''x'')\<rparr>"

text \<open>A processed show whose TVMaze information lists specials that Plex does not have.\<close>

definition remote_specials_only :: show_dict where
  "remote_specials_only =
     \<lparr>metadata = [(''Title'', ''Gamma'')],
      seasons_in_plex = [(1, \<lparr>episodes_in_plex = 3, season_number = 1\<rparr>)],
      tvmaze_info = Some \<lparr>total_seasons = 2,
                          seasons = [(0, \<lparr>total_episodes = 4\<rparr>), (1, \<lparr>total_episodes = 3\<rparr>),
                                     (2, \<lparr>total_episodes = 6\<rparr>)]\<rparr>,
      max_seasons = None\<rparr>"

section \<open>Season cells\<close>

lemma season_cell_remote_entry:
  assumes "map_of (seasons info) season_num = Some r"
  shows "calculate_season_cell season_num (Some info) plex =
     (let l = plex_episode_count plex season_num; t = str_int l @ ''/'' @ str_int (total_episodes r)
      in if total_episodes r = 0 then (t, Some (if l = 0 then gray else yellow))
         else if total_episodes r \<le> l then (t, Some green)
         else if 0 < l then (t, Some red) else (t, None))"
proof -
  from assms have "seasons info \<noteq> []" by auto
  with assms show ?thesis
    by (simp add: calculate_season_cell_def Let_def)
qed

text \<open>
  C1. For a season whose TVMaze entry lists a positive number of episodes, the cell
  shows \<open>local/remote\<close>; it is green (complete) when the local count reaches the remote
  count, red (partial) when the local count is positive but smaller, and has no fill
  (empty) when the local count is zero.
\<close>

theorem season_cell_positive_remote:
  assumes "map_of (seasons info) season_num = Some r"
    and "0 < total_episodes r"
  shows "(total_episodes r \<le> plex_episode_count plex season_num \<longrightarrow>
            calculate_season_cell season_num (Some info) plex =
              (str_int (plex_episode_count plex season_num) @ ''/'' @ str_int (total_episodes r),
               Some green))
       \<and> (0 < plex_episode_count plex season_num
            \<and> plex_episode_count plex season_num < total_episodes r \<longrightarrow>
            calculate_season_cell season_num (Some info) plex =
              (str_int (plex_episode_count plex season_num) @ ''/'' @ str_int (total_episodes r),
               Some red))
       \<and> (plex_episode_count plex season_num = 0 \<longrightarrow>
            calculate_season_cell season_num (Some info) plex =
              (''0/'' @ str_int (total_episodes r), None))"
proof -
  have zero: "str_int 0 = ''0''"
    by (simp add: str_int_def str_nat.simps digit_char_def)
  from assms show ?thesis
    by (simp add: season_cell_remote_entry Let_def zero)
qed

theorem season_cell_positive_remote_witness:
  "map_of (seasons \<lparr>total_seasons = 2, seasons = [(1, \<lparr>total_episodes = 10\<rparr>), (2, \<lparr>total_episodes = 8\<rparr>)]\<rparr>) 2
     = Some \<lparr>total_episodes = 8\<rparr>
   \<and> 0 < total_episodes \<lparr>total_episodes = 8\<rparr>
   \<and> calculate_season_cell 2
        (Some \<lparr>total_seasons = 2, seasons = [(1, \<lparr>total_episodes = 10\<rparr>), (2, \<lparr>total_episodes = 8\<rparr>)]\<rparr>)
        [(1, \<lparr>episodes_in_plex = 10, season_number = 1\<rparr>), (2, \<lparr>episodes_in_plex = 5, season_number = 2\<rparr>)]
      = (''5/8'', Some red)"
  using season_cell_positive_remote
    [of "\<lparr>total_seasons = 2, seasons = [(1, \<lparr>total_episodes = 10\<rparr>), (2, \<lparr>total_episodes = 8\<rparr>)]\<rparr>"
        2 "\<lparr>total_episodes = 8\<rparr>"
        "[(1, \<lparr>episodes_in_plex = 10, season_number = 1\<rparr>), (2, \<lparr>episodes_in_plex = 5, season_number = 2\<rparr>)]"]
  by (simp add: plex_episode_count_def str_int_def str_nat.simps digit_char_def)

lemma max_default_Max: "xs \<noteq> [] \<Longrightarrow> max_default xs d = Max (set xs)"
  by (cases xs) (simp_all add: max_default_def Max.set_eq_fold [symmetric])

lemma beyond_local_seasons:
  assumes "\<forall>k \<in> fst ` set plex. k < season_num" and "0 \<le> season_num"
  shows "max_default (map fst plex) (- 1) < season_num \<and> plex_episode_count plex season_num = 0"
proof
  show "max_default (map fst plex) (- 1) < season_num"
  proof (cases "plex = []")
    case True
    with assms(2) show ?thesis by (simp add: max_default_def)
  next
    case False
    then have "max_default (map fst plex) (- 1) = Max (fst ` set plex)"
      by (simp add: max_default_Max)
    moreover have "Max (fst ` set plex) \<in> fst ` set plex"
      using False by (intro Max_in) auto
    ultimately show ?thesis using assms(1) by auto
  qed
next
  from assms(1) have "season_num \<notin> fst ` set plex" by auto
  then have "map_of plex season_num = None" by (simp add: map_of_eq_None_iff)
  then show "plex_episode_count plex season_num = 0"
    by (simp add: plex_episode_count_def)
qed

text \<open>
  C5 (as amended). For a season without a TVMaze entry, whether the TVMaze information
  lacks the season or there is no TVMaze information at all: with a positive local count
  the cell shows \<open>localCount/?\<close> on the yellow (needs attention) fill; with a local count
  of zero the cell is blank, gray when TVMaze lists other seasons, and otherwise gray
  when the season number lies beyond the highest local season number and without fill
  when it does not. The cell is never green. Without any TVMaze information, every
  non-negative season number beyond the highest local one gives a blank gray cell.
\<close>

theorem season_cell_unknown_remote:
  assumes "case ti of None \<Rightarrow> True | Some info \<Rightarrow> map_of (seasons info) season_num = None"
  shows "(0 < plex_episode_count plex season_num \<longrightarrow>
            calculate_season_cell season_num ti plex =
              (str_int (plex_episode_count plex season_num) @ ''/?'', Some yellow))
       \<and> (plex_episode_count plex season_num \<le> 0 \<longrightarrow>
            calculate_season_cell season_num ti plex =
              ('''',
               if (case ti of None \<Rightarrow> False | Some info \<Rightarrow> seasons info \<noteq> []) then Some gray
               else if max_default (map fst plex) (- 1) < season_num then Some gray
               else None))
       \<and> snd (calculate_season_cell season_num ti plex) \<noteq> Some green
       \<and> (ti = None \<and> 0 \<le> season_num \<and> (\<forall>k \<in> fst ` set plex. k < season_num) \<longrightarrow>
            calculate_season_cell season_num ti plex = ('''', Some gray))"
proof (cases ti)
  case None
  then show ?thesis
    using beyond_local_seasons [of plex season_num]
    by (auto simp add: calculate_season_cell_def Let_def)
next
  case (Some info)
  with assms have "map_of (seasons info) season_num = None" by simp
  with Some show ?thesis
    by (auto simp add: calculate_season_cell_def Let_def)
qed

theorem season_cell_unknown_remote_witness:
  "map_of (seasons \<lparr>total_seasons = 1, seasons = [(1, \<lparr>total_episodes = 10\<rparr>)]\<rparr>) 2 = None
   \<and> 0 < plex_episode_count [(2, \<lparr>episodes_in_plex = 3, season_number = 2\<rparr>)] 2
   \<and> calculate_season_cell 2 (Some \<lparr>total_seasons = 1, seasons = [(1, \<lparr>total_episodes = 10\<rparr>)]\<rparr>)
        [(2, \<lparr>episodes_in_plex = 3, season_number = 2\<rparr>)] = (''3/?'', Some yellow)
   \<and> 0 \<le> (4::int)
   \<and> list_all (\<lambda>k. k < (4::int)) (map fst [(2, \<lparr>episodes_in_plex = 3, season_number = 2\<rparr>)])
   \<and> calculate_season_cell 4 None [(2, \<lparr>episodes_in_plex = 3, season_number = 2\<rparr>)] = ([], Some gray)"
  using season_cell_unknown_remote
          [where ti = "Some \<lparr>total_seasons = 1, seasons = [(1, \<lparr>total_episodes = 10\<rparr>)]\<rparr>"
             and season_num = 2 and plex = "[(2, \<lparr>episodes_in_plex = 3, season_number = 2\<rparr>)]"]
        season_cell_unknown_remote
          [where ti = None and season_num = 4
             and plex = "[(2, \<lparr>episodes_in_plex = 3, season_number = 2\<rparr>)]"]
  by (simp add: plex_episode_count_def str_int_def str_nat.simps digit_char_def max_default_def)

text \<open>
  The claim as first stated fails where the local count is zero: for season 2 of a show
  whose TVMaze information lists season 1 only and that has no local seasons, the cell is
  blank and gray, not \<open>0/?\<close> on yellow.
\<close>

theorem season_cell_unknown_remote_counterexample:
  "map_of (seasons \<lparr>total_seasons = 1, seasons = [(1, \<lparr>total_episodes = 10\<rparr>)]\<rparr>) 2 = None
   \<and> calculate_season_cell 2 (Some \<lparr>total_seasons = 1, seasons = [(1, \<lparr>total_episodes = 10\<rparr>)]\<rparr>) []
       = ('''', Some gray)
   \<and> calculate_season_cell 2 (Some \<lparr>total_seasons = 1, seasons = [(1, \<lparr>total_episodes = 10\<rparr>)]\<rparr>) []
       \<noteq> (str_int (plex_episode_count [] 2) @ ''/?'', Some yellow)"
  by (simp add: calculate_season_cell_def plex_episode_count_def Let_def)

section \<open>Series status\<close>

lemma fold_count_complete_step:
  "fold (count_complete_step plex) xs c =
     c + int (length (filter (\<lambda>(s, r). s \<noteq> 0 \<and> 0 < total_episodes r
                                  \<and> total_episodes r \<le> plex_episode_count plex s) xs))"
proof (induction xs arbitrary: c)
  case Nil
  show ?case by simp
next
  case (Cons x xs)
  obtain s r where x: "x = (s, r)" by (cases x)
  have "count_complete_step plex (s, r) c =
          (if s \<noteq> 0 \<and> 0 < total_episodes r \<and> total_episodes r \<le> plex_episode_count plex s
           then c + 1 else c)"
    by (auto simp add: count_complete_step_def plex_episode_count_def split: option.splits)
  with Cons.IH x show ?case by simp
qed

lemma length_filter_distinct_keys:
  assumes "distinct (map fst xs)"
  shows "length (filter (\<lambda>(k, v). Q k v) xs) =
           card {k \<in> fst ` set xs. \<exists>v. map_of xs k = Some v \<and> Q k v}"
proof -
  let ?ys = "filter (\<lambda>(k, v). Q k v) xs"
  have d: "distinct (map fst ?ys)"
    using assms by (simp add: distinct_map_filter)
  have "set (map fst ?ys) = {k \<in> fst ` set xs. \<exists>v. map_of xs k = Some v \<and> Q k v}"
    using assms by (auto simp add: image_iff)
  then have "card {k \<in> fst ` set xs. \<exists>v. map_of xs k = Some v \<and> Q k v} = card (set (map fst ?ys))"
    by simp
  also have "\<dots> = length (map fst ?ys)"
    using d by (rule distinct_card)
  finally show ?thesis by simp
qed

lemma length_filter_keys:
  assumes "distinct (map fst xs)"
  shows "length (filter P (map fst xs)) = card {k \<in> fst ` set xs. P k}"
proof -
  have "distinct (filter P (map fst xs))" using assms by simp
  then have "card (set (filter P (map fst xs))) = length (filter P (map fst xs))"
    by (rule distinct_card)
  moreover have "set (filter P (map fst xs)) = {k \<in> fst ` set xs. P k}" by auto
  ultimately show ?thesis by simp
qed

lemma str_int_nat: "str_int (int n) = str_nat n"
  by (simp add: str_int_def)

lemma series_counts:
  assumes "distinct (map fst (seasons info))" and "\<forall>s \<in> fst ` set (seasons info). 0 \<le> s"
  shows "fold (count_complete_step plex) (seasons info) 0 = int (spec_numerator info plex)"
    and "length (filter (\<lambda>s_num. s_num > 0) (map fst (seasons info))) = spec_denominator info"
    and "spec_numerator info plex \<le> spec_denominator info"
proof -
  have "{k \<in> fst ` set (seasons info). \<exists>v. map_of (seasons info) k = Some v \<and>
            (k \<noteq> 0 \<and> 0 < total_episodes v \<and> total_episodes v \<le> plex_episode_count plex k)}
        = {s \<in> fst ` set (seasons info). 0 < s \<and> 0 < remote_count info s \<and>
             remote_count info s \<le> plex_episode_count plex s}"
    using assms(2) by (force simp add: remote_count_def split: option.splits)
  then show "fold (count_complete_step plex) (seasons info) 0 = int (spec_numerator info plex)"
    using length_filter_distinct_keys [OF assms(1),
            of "\<lambda>k v. k \<noteq> 0 \<and> 0 < total_episodes v \<and> total_episodes v \<le> plex_episode_count plex k"]
    by (simp add: fold_count_complete_step spec_numerator_def)
  show "length (filter (\<lambda>s_num. s_num > 0) (map fst (seasons info))) = spec_denominator info"
    using length_filter_keys [OF assms(1), of "\<lambda>s. 0 < s"] by (simp add: spec_denominator_def)
  show "spec_numerator info plex \<le> spec_denominator info"
    unfolding spec_numerator_def spec_denominator_def
    by (rule card_mono) auto
qed

text \<open>
  C4 (as amended). With the numerator and the denominator of the specification, the
  status text is \<open>numerator/denominator\<close> and the fill is gray (neutral) when the
  denominator is zero, green (complete) when the numerator equals a positive denominator
  and red (partial) when the numerator is positive and smaller. When the numerator is
  zero although TVMaze lists regular seasons, the cell has no fill at all: it is not
  marked as needing attention. The numerator never exceeds the denominator. Without
  TVMaze information the text is \<open>localRegularSeasonCount/?\<close>, yellow (needs attention)
  exactly when that count is positive, and never green. Dictionary keys are distinct,
  and season numbers are not negative, as the data model requires.
\<close>

theorem series_completion_classification:
  assumes "distinct (map fst (seasons info))"
    and "\<forall>s \<in> fst ` set (seasons info). 0 \<le> s"
    and "distinct (map fst plex)"
  shows "calculate_series_completion (Some info) plex =
           (str_nat (spec_numerator info plex) @ ''/'' @ str_nat (spec_denominator info),
            if spec_denominator info = 0 then Some gray
            else if spec_numerator info plex = spec_denominator info then Some green
            else if 0 < spec_numerator info plex then Some red
            else None)
       \<and> spec_numerator info plex \<le> spec_denominator info
       \<and> calculate_series_completion None plex =
           (str_nat (card {s \<in> fst ` set plex. 0 < s}) @ ''/?'',
            if 0 < card {s \<in> fst ` set plex. 0 < s} then Some yellow else None)
       \<and> snd (calculate_series_completion None plex) \<noteq> Some green"
proof -
  note c = series_counts [OF assms(1,2)]
  have some: "calculate_series_completion (Some info) plex =
           (str_nat (spec_numerator info plex) @ ''/'' @ str_nat (spec_denominator info),
            if spec_denominator info = 0 then Some gray
            else if spec_numerator info plex = spec_denominator info then Some green
            else if 0 < spec_numerator info plex then Some red
            else None)"
    unfolding calculate_series_completion_def Let_def option.case c(1) c(2) str_int_nat
    using c(3) [where plex = plex] by auto
  have none: "calculate_series_completion None plex =
           (str_nat (card {s \<in> fst ` set plex. 0 < s}) @ ''/?'',
            if 0 < card {s \<in> fst ` set plex. 0 < s} then Some yellow else None)"
    unfolding calculate_series_completion_def Let_def option.case
      length_filter_keys [OF assms(3), of "\<lambda>s. 0 < s"] str_int_nat
    by simp
  from some none c(3) [where plex = plex] show ?thesis by simp
qed

theorem series_completion_classification_witness:
  "distinct (map fst (seasons \<lparr>total_seasons = 2, seasons =
       [(0, \<lparr>total_episodes = 2\<rparr>), (1, \<lparr>total_episodes = 10\<rparr>), (2, \<lparr>total_episodes = 8\<rparr>)]\<rparr>))
   \<and> list_all (\<lambda>s. 0 \<le> s) (map fst (seasons \<lparr>total_seasons = 2, seasons =
       [(0, \<lparr>total_episodes = 2\<rparr>), (1, \<lparr>total_episodes = 10\<rparr>), (2, \<lparr>total_episodes = 8\<rparr>)]\<rparr>))
   \<and> distinct (map fst [(1::int, \<lparr>episodes_in_plex = 10, season_number = 1\<rparr>),
                          (2, \<lparr>episodes_in_plex = 5, season_number = 2\<rparr>)])
   \<and> calculate_series_completion
        (Some \<lparr>total_seasons = 2, seasons =
           [(0, \<lparr>total_episodes = 2\<rparr>), (1, \<lparr>total_episodes = 10\<rparr>), (2, \<lparr>total_episodes = 8\<rparr>)]\<rparr>)
        [(1, \<lparr>episodes_in_plex = 10, season_number = 1\<rparr>),
         (2, \<lparr>episodes_in_plex = 5, season_number = 2\<rparr>)] = (''1/2'', Some red)
   \<and> calculate_series_completion None
        [(1, \<lparr>episodes_in_plex = 10, season_number = 1\<rparr>),
         (2, \<lparr>episodes_in_plex = 5, season_number = 2\<rparr>)] = (''2/?'', Some yellow)"
proof -
  let ?info = "\<lparr>total_seasons = 2, seasons =
       [(0::int, \<lparr>total_episodes = 2\<rparr>), (1, \<lparr>total_episodes = 10\<rparr>), (2, \<lparr>total_episodes = 8\<rparr>)]\<rparr>"
  let ?plex = "[(1::int, \<lparr>episodes_in_plex = 10, season_number = 1\<rparr>),
                (2, \<lparr>episodes_in_plex = 5, season_number = 2\<rparr>)]"
  have h1: "distinct (map fst (seasons ?info))" by simp
  have h2: "\<forall>s \<in> fst ` set (seasons ?info). 0 \<le> s" by simp
  have h3: "distinct (map fst ?plex)" by simp
  have n: "spec_numerator ?info ?plex = 1" by code_simp
  have d: "spec_denominator ?info = 2" by code_simp
  have l: "card {s \<in> fst ` set ?plex. 0 < s} = 2" by code_simp
  from series_completion_classification [OF h1 h2 h3] n d l h1 h3 show ?thesis
    by (simp add: str_nat.simps digit_char_def)
qed

text \<open>
  The claim as first stated, that a series without any complete season is treated as
  needing attention, fails: a show that has 9 of the 10 episodes of season 1 and 7 of the
  8 episodes of season 2 gets \<open>0/2\<close> in a cell without fill, neither red nor yellow, the
  same fill as a show without TVMaze information and without local seasons, which is
  the case that is not marked.
\<close>

theorem series_completion_classification_counterexample:
  "calculate_series_completion
     (Some \<lparr>total_seasons = 2,
            seasons = [(1, \<lparr>total_episodes = 10\<rparr>), (2, \<lparr>total_episodes = 8\<rparr>)]\<rparr>)
     [(1, \<lparr>episodes_in_plex = 9, season_number = 1\<rparr>),
      (2, \<lparr>episodes_in_plex = 7, season_number = 2\<rparr>)] = (''0/2'', None)
   \<and> snd (calculate_series_completion
            (Some \<lparr>total_seasons = 2,
                   seasons = [(1, \<lparr>total_episodes = 10\<rparr>), (2, \<lparr>total_episodes = 8\<rparr>)]\<rparr>)
            [(1, \<lparr>episodes_in_plex = 9, season_number = 1\<rparr>),
             (2, \<lparr>episodes_in_plex = 7, season_number = 2\<rparr>)]) \<noteq> Some red
   \<and> snd (calculate_series_completion
            (Some \<lparr>total_seasons = 2,
                   seasons = [(1, \<lparr>total_episodes = 10\<rparr>), (2, \<lparr>total_episodes = 8\<rparr>)]\<rparr>)
            [(1, \<lparr>episodes_in_plex = 9, season_number = 1\<rparr>),
             (2, \<lparr>episodes_in_plex = 7, season_number = 2\<rparr>)]) \<noteq> Some yellow
   \<and> snd (calculate_series_completion
            (Some \<lparr>total_seasons = 2,
                   seasons = [(1, \<lparr>total_episodes = 10\<rparr>), (2, \<lparr>total_episodes = 8\<rparr>)]\<rparr>)
            [(1, \<lparr>episodes_in_plex = 9, season_number = 1\<rparr>),
             (2, \<lparr>episodes_in_plex = 7, season_number = 2\<rparr>)])
       = snd (calculate_series_completion None [])"
  by (simp add: calculate_series_completion_def count_complete_step_def Let_def
        str_int_def str_nat.simps digit_char_def)

section \<open>Cache\<close>

text \<open>
  C6. A value stored with \<open>add_to_cache\<close>, a show information or \<open>None\<close>, is what
  \<open>get_from_cache\<close> returns for the same key right afterwards, as long as the days between
  the two clock readings do not exceed the maximum age of 30.
\<close>

theorem cache_round_trip:
  assumes "timedelta_days (clock e (Suc (clock_reads w)) - clock e (clock_reads w))
             \<le> TVMAZE_CACHE_MAX_AGE_DAYS"
  shows "fst (get_from_cache e key (add_to_cache e key v w)) = v"
  using assms
  by (simp add: get_from_cache_def add_to_cache_def datetime_now_def Let_def)

theorem cache_round_trip_witness:
  "timedelta_days (clock no_match_env (Suc (clock_reads initial_world))
                    - clock no_match_env (clock_reads initial_world)) \<le> TVMAZE_CACHE_MAX_AGE_DAYS
   \<and> fst (get_from_cache no_match_env ''imdb:tt0944947''
            (add_to_cache no_match_env ''imdb:tt0944947'' None initial_world)) = None
   \<and> fst (get_from_cache no_match_env ''imdb:tt0944947''
            (add_to_cache no_match_env ''imdb:tt0944947''
               (Some \<lparr>total_seasons = 1, seasons = [(1, \<lparr>total_episodes = 10\<rparr>)]\<rparr>) initial_world))
       = Some \<lparr>total_seasons = 1, seasons = [(1, \<lparr>total_episodes = 10\<rparr>)]\<rparr>"
proof -
  have h: "timedelta_days (clock no_match_env (Suc (clock_reads initial_world))
                    - clock no_match_env (clock_reads initial_world)) \<le> TVMAZE_CACHE_MAX_AGE_DAYS"
    by (simp add: no_match_env_def initial_world_def timedelta_days_def TVMAZE_CACHE_MAX_AGE_DAYS_def)
  from cache_round_trip [OF h] h show ?thesis by simp
qed

lemma dom_add_to_cache:
  "dom (persistent_tvmaze_cache (add_to_cache e key v w)) = insert key (dom (persistent_tvmaze_cache w))"
  by (simp add: add_to_cache_def datetime_now_def)

lemma dom_fold_add_to_cache:
  "dom (persistent_tvmaze_cache (fold (\<lambda>key. add_to_cache e key (v key)) keys w)) =
     dom (persistent_tvmaze_cache w) \<union> set keys"
  by (induction keys arbitrary: w) (simp_all add: dom_add_to_cache)

lemma distinct_title_keys: "distinct (map nth_title_key [0..<n])"
proof -
  have "inj nth_title_key"
    by (rule injI) (auto simp add: nth_title_key_def dest: arg_cong [where f = length])
  then show ?thesis by (simp add: distinct_map inj_on_def)
qed

text \<open>
  C7. The cache dictionary has no bound: from the empty cache, \<open>add_to_cache\<close> with 257
  distinct keys leaves 257 entries, one more than \<open>TVMAZE_CACHE_SIZE\<close>, which no function
  of the script reads.
\<close>

theorem cache_grows_beyond_capacity:
  "card (dom (persistent_tvmaze_cache
           (fold (\<lambda>key. add_to_cache e key (Some \<lparr>total_seasons = 0, seasons = []\<rparr>))
              (map nth_title_key [0..<257]) initial_world))) = 257
   \<and> TVMAZE_CACHE_SIZE = 256"
proof -
  have "dom (persistent_tvmaze_cache
           (fold (\<lambda>key. add_to_cache e key (Some \<lparr>total_seasons = 0, seasons = []\<rparr>))
              (map nth_title_key [0..<257]) initial_world)) = set (map nth_title_key [0..<257])"
    by (simp only: dom_fold_add_to_cache) (simp add: initial_world_def)
  moreover have "card (set (map nth_title_key [0..<257])) = length (map nth_title_key [0..<257])"
    using distinct_title_keys by (rule distinct_card)
  ultimately show ?thesis by (simp add: TVMAZE_CACHE_SIZE_def)
qed

section \<open>Retry and lookup\<close>

lemma fetch_except_returns: "fetch_except ex = Inr None"
  by (cases ex) (simp_all add: fetch_except_def)

lemma fetch_body_never_raises:
  "\<exists>r. fst (fetch_tvmaze_show_info_from_api_body e search_term is_imdb_id w) = Inr r"
  by (auto simp add: fetch_tvmaze_show_info_from_api_body_def fetch_except_returns Let_def
        split: prod.splits sum.splits option.splits)

lemma retry_on_failure_returning:
  assumes "fst (func w) = Inr r"
  shows "retry_on_failure max_retries base_delay backoff_factor func w = func w"
proof -
  have "[0..<max_retries + 1] = 0 # [1..<max_retries + 1]"
    by (simp add: upt_conv_Cons)
  with assms show ?thesis
    by (cases "func w") (simp add: retry_on_failure_def)
qed

lemma fetch_is_body:
  "fetch_tvmaze_show_info_from_api e search_term is_imdb_id w =
     fetch_tvmaze_show_info_from_api_body e search_term is_imdb_id w"
proof -
  obtain r where "fst (fetch_tvmaze_show_info_from_api_body e search_term is_imdb_id w) = Inr r"
    using fetch_body_never_raises by blast
  then show ?thesis
    unfolding fetch_tvmaze_show_info_from_api_def by (rule retry_on_failure_returning)
qed

text \<open>The decorator by itself does retry a function that raises a network error: four
  calls, with sleeps of 1, 2 and 4 seconds between them, and then the exception.\<close>

lemma retry_on_failure_raising:
  "retry_on_failure 3 1 2 (\<lambda>w. (Inl RequestException :: exn + 'a option, log_request req w)) initial_world =
     (Inl RequestException,
      initial_world\<lparr>http_log := [req, req, req, req], sleeps := [1, 2, 4]\<rparr>)"
  by (simp add: retry_on_failure_def numeral_eq_Suc upt_rec log_request_def time_sleep_def initial_world_def)

text \<open>
  C3. The fetch of the script does not retry: its body catches the network error itself
  and returns \<open>None\<close>, so the decorator sees a normal return. With a TVMaze whose first
  request fails and whose later requests succeed, the decorated fetch sends one request,
  sleeps never and returns \<open>None\<close>, although the very next attempt would have returned
  the show information.
\<close>

theorem fetch_gives_up_after_first_transient_failure:
  "fetch_tvmaze_show_info_from_api flaky_env ''tt0944947'' True initial_world =
     (Inr None, initial_world\<lparr>http_log := [LookupShows ''tt0944947'']\<rparr>)
   \<and> fst (fetch_tvmaze_show_info_from_api flaky_env ''tt0944947'' True
            (initial_world\<lparr>http_log := [LookupShows ''tt0944947'']\<rparr>)) =
       Inr (Some \<lparr>total_seasons = 2,
                  seasons = [(1, \<lparr>total_episodes = 2\<rparr>), (2, \<lparr>total_episodes = 1\<rparr>)]\<rparr>)"
  by (simp add: fetch_is_body fetch_tvmaze_show_info_from_api_body_def request_show_id_def
        flaky_env_def initial_world_def log_request_def fetch_except_def count_episode_def
        max_default_def Let_def)

text \<open>
  C2. A negative result is not stored: after a lookup that finds no match the cache is
  as empty as before, and the second lookup of the same key sends the request again.
\<close>

theorem negative_result_is_fetched_again:
  "get_tvmaze_show_info no_match_env ''tt0000001'' True initial_world =
     (Inr None, initial_world\<lparr>http_log := [LookupShows ''tt0000001'']\<rparr>)
   \<and> get_tvmaze_show_info no_match_env ''tt0000001'' True
        (initial_world\<lparr>http_log := [LookupShows ''tt0000001'']\<rparr>) =
     (Inr None, initial_world\<lparr>http_log := [LookupShows ''tt0000001'', LookupShows ''tt0000001'']\<rparr>)"
  by (simp add: get_tvmaze_show_info_def get_from_cache_def fetch_is_body
        fetch_tvmaze_show_info_from_api_body_def request_show_id_def
        no_match_env_def initial_world_def log_request_def Let_def)

section \<open>Batches of shows\<close>

lemma length_executor_map: "length (fst (executor_map f xs w)) = length xs"
  by (induction xs arbitrary: w) (simp_all add: split_beta Let_def)

lemma executor_map_append:
  "executor_map f (xs @ ys) w =
     (fst (executor_map f xs w) @ fst (executor_map f ys (snd (executor_map f xs w))),
      snd (executor_map f ys (snd (executor_map f xs w))))"
  by (induction xs arbitrary: w) (simp_all add: split_beta Let_def)

lemma nth_executor_map:
  "i < length xs \<Longrightarrow>
     fst (executor_map f xs w) ! i = fst (f (xs ! i) (snd (executor_map f (take i xs) w)))"
proof (induction xs arbitrary: w i)
  case Nil
  then show ?case by simp
next
  case (Cons x xs)
  show ?case
  proof (cases i)
    case 0
    then show ?thesis by (simp add: split_beta Let_def)
  next
    case (Suc j)
    with Cons.prems have "j < length xs" by simp
    from Cons.IH [OF this] Suc show ?thesis by (simp add: split_beta Let_def)
  qed
qed

lemma in_executor_map:
  "d \<in> set (fst (executor_map f xs w)) \<Longrightarrow> \<exists>x w'. d = fst (f x w')"
  by (induction xs arbitrary: w) (auto simp add: split_beta Let_def)

lemma fold_collect_show_result:
  "fold collect_show_result ds (acc, m) =
     (acc @ map (\<lambda>d. snd (pop_max_seasons d)) ds,
      fold (\<lambda>d m. max m (fst (pop_max_seasons d))) ds m)"
  by (induction ds arbitrary: acc m) (simp_all add: collect_show_result_def split_beta Let_def)

lemma fold_max_Max:
  "fold (\<lambda>d m. max m (c d)) ds (m0 :: int) = Max (insert m0 (c ` set ds))"
proof (induction ds arbitrary: m0)
  case Nil
  show ?case by simp
next
  case (Cons d ds)
  have "Max (insert (max m0 (c d)) (c ` set ds)) = Max (insert m0 (insert (c d) (c ` set ds)))"
    by (cases "set ds = {}") (simp_all add: max.assoc)
  with Cons.IH [of "max m0 (c d)"] show ?case by simp
qed

lemma get_show_details_empty: "get_show_details e [] w = (Inl ValueError, w)"
  by (simp add: get_show_details_def)

lemma get_show_details_eq:
  "batch \<noteq> [] \<Longrightarrow>
   get_show_details e batch w =
     (Inr (map (\<lambda>d. snd (pop_max_seasons d)) (fst (executor_map (process_single_show e) batch w)),
           Max (insert 0 ((\<lambda>d. fst (pop_max_seasons d))
                            ` set (fst (executor_map (process_single_show e) batch w))))),
      snd (executor_map (process_single_show e) batch w))"
  by (simp add: get_show_details_def MAX_WORKER_THREADS_def split_beta Let_def
        fold_collect_show_result fold_max_Max)

lemma process_single_show_cases:
  "fst (process_single_show e x w) =
     (case fst (process_single_show_try e x w) of
        Inr d \<Rightarrow> d
      | Inl ex \<Rightarrow> minimal_show_data x)"
  by (cases "process_single_show_try e x w") (auto simp add: process_single_show_def split: sum.splits)

lemma process_single_show_raising_guids:
  "guids x = Inl ex \<Longrightarrow> process_single_show e x w = (minimal_show_data x, w)"
  by (simp add: process_single_show_def process_single_show_try_def Let_def)

lemma executor_map_raising_guids:
  assumes "guids x = Inl ex"
  shows "executor_map (process_single_show e) (xs @ x # ys) w =
      (fst (executor_map (process_single_show e) xs w) @ minimal_show_data x
         # fst (executor_map (process_single_show e) ys (snd (executor_map (process_single_show e) xs w))),
       snd (executor_map (process_single_show e) (xs @ ys) w))"
proof -
  let ?f = "process_single_show e"
  let ?w1 = "snd (executor_map ?f xs w)"
  have step: "executor_map ?f (x # ys) ?w1 =
      (minimal_show_data x # fst (executor_map ?f ys ?w1), snd (executor_map ?f ys ?w1))"
    by (subst executor_map.simps, subst process_single_show_raising_guids [OF assms])
      (simp add: split_beta)
  show ?thesis
    by (simp add: executor_map_append [of ?f xs "x # ys"] executor_map_append [of ?f xs ys] step
          del: executor_map.simps)
qed

lemma max_seasons_of_processed:
  "max_seasons (fst (process_single_show e x w)) =
     Some (case tvmaze_info (fst (process_single_show e x w)) of
             None \<Rightarrow> 0
           | Some info \<Rightarrow> total_seasons info)"
  by (auto simp add: process_single_show_def process_single_show_try_def minimal_show_data_def
        Let_def split: sum.splits prod.splits option.splits if_splits)

text \<open>
  C8. For a batch that is not empty, \<open>get_show_details\<close> returns one record per show. The
  record of a show is the result of its \<open>try\<close> block, or, when that block raised, the
  minimal record with the title, no local seasons and no TVMaze information. A show
  whose \<open>guids\<close> cannot be read leaves the records of all other shows, the maximum and
  the state exactly as they are for the batch without it. The workers run one after the
  other here, in the order of the batch.
\<close>

theorem batch_isolation:
  "(batch \<noteq> [] \<longrightarrow>
      (\<exists>records m. fst (get_show_details e batch w) = Inr (records, m)
         \<and> length records = length batch
         \<and> (\<forall>i < length batch.
               records ! i =
                 (case fst (process_single_show_try e (batch ! i) (world_before e batch w i)) of
                    Inr d \<Rightarrow> d\<lparr>max_seasons := None\<rparr>
                  | Inl ex \<Rightarrow>
                      \<lparr>metadata = [(''Title'', title (batch ! i))], seasons_in_plex = [],
                       tvmaze_info = None, max_seasons = None\<rparr>))))
   \<and> (\<forall>ex records m w'.
         guids x = Inl ex \<and> get_show_details e (xs @ ys) w = (Inr (records, m), w') \<longrightarrow>
         get_show_details e (xs @ x # ys) w =
           (Inr (take (length xs) records
                   @ [\<lparr>metadata = [(''Title'', title x)], seasons_in_plex = [],
                        tvmaze_info = None, max_seasons = None\<rparr>]
                   @ drop (length xs) records, m), w'))"
proof (intro conjI allI impI)
  assume ne: "batch \<noteq> []"
  let ?results = "fst (executor_map (process_single_show e) batch w)"
  let ?records = "map (\<lambda>d. snd (pop_max_seasons d)) ?results"
  have nth: "?records ! i =
      (case fst (process_single_show_try e (batch ! i) (world_before e batch w i)) of
         Inr d \<Rightarrow> d\<lparr>max_seasons := None\<rparr>
       | Inl ex \<Rightarrow>
           \<lparr>metadata = [(''Title'', title (batch ! i))], seasons_in_plex = [],
            tvmaze_info = None, max_seasons = None\<rparr>)"
    if "i < length batch" for i
    using that
    by (simp add: length_executor_map nth_executor_map world_before_def process_single_show_cases
          pop_max_seasons_def minimal_show_data_def split: sum.splits)
  have "fst (get_show_details e batch w) =
      Inr (?records, Max (insert 0 ((\<lambda>d. fst (pop_max_seasons d)) ` set ?results)))"
    by (simp add: get_show_details_eq [OF ne])
  moreover have "length ?records = length batch"
    by (simp add: length_executor_map)
  ultimately show "\<exists>records m. fst (get_show_details e batch w) = Inr (records, m)
         \<and> length records = length batch
         \<and> (\<forall>i < length batch.
               records ! i =
                 (case fst (process_single_show_try e (batch ! i) (world_before e batch w i)) of
                    Inr d \<Rightarrow> d\<lparr>max_seasons := None\<rparr>
                  | Inl ex \<Rightarrow>
                      \<lparr>metadata = [(''Title'', title (batch ! i))], seasons_in_plex = [],
                       tvmaze_info = None, max_seasons = None\<rparr>))"
    using nth by blast
next
  fix ex records m w'
  assume a: "guids x = Inl ex \<and> get_show_details e (xs @ ys) w = (Inr (records, m), w')"
  then have g: "guids x = Inl ex" and r: "get_show_details e (xs @ ys) w = (Inr (records, m), w')"
    by simp_all
  have ne: "xs @ ys \<noteq> []"
  proof
    assume "xs @ ys = []"
    with r show False by (simp add: get_show_details_empty)
  qed
  let ?f = "process_single_show e"
  let ?as = "fst (executor_map ?f xs w)"
  let ?bs = "fst (executor_map ?f ys (snd (executor_map ?f xs w)))"
  have without_x: "fst (executor_map ?f (xs @ ys) w) = ?as @ ?bs"
    by (simp add: executor_map_append)
  from r have records: "records = map (\<lambda>d. snd (pop_max_seasons d)) (?as @ ?bs)"
    and m: "m = Max (insert 0 ((\<lambda>d. fst (pop_max_seasons d)) ` set (?as @ ?bs)))"
    and w': "w' = snd (executor_map ?f (xs @ ys) w)"
    by (simp_all add: get_show_details_eq [OF ne] without_x)
  have "xs @ x # ys \<noteq> []" by simp
  from get_show_details_eq [OF this, of e w]
  show "get_show_details e (xs @ x # ys) w =
           (Inr (take (length xs) records
                   @ [\<lparr>metadata = [(''Title'', title x)], seasons_in_plex = [],
                        tvmaze_info = None, max_seasons = None\<rparr>]
                   @ drop (length xs) records, m), w')"
    by (simp add: executor_map_raising_guids [OF g] records m w' length_executor_map
          pop_max_seasons_def minimal_show_data_def del: executor_map.simps)
qed

theorem batch_isolation_witness:
  "[alpha_show, broken_show, alpha_show] \<noteq> []
   \<and> (1::nat) < length [alpha_show, broken_show, alpha_show]
   \<and> guids broken_show = Inl OtherException
   \<and> fst (process_single_show_try steady_env ([alpha_show, broken_show, alpha_show] ! 1)
            (world_before steady_env [alpha_show, broken_show, alpha_show] initial_world 1))
       = Inl OtherException
   \<and> (\<exists>records m.
         fst (get_show_details steady_env [alpha_show, broken_show, alpha_show] initial_world)
           = Inr (records, m)
         \<and> length records = 3
         \<and> records ! 1 = \<lparr>metadata = [(''Title'', ''Beta'')], seasons_in_plex = [],
                           tvmaze_info = None, max_seasons = None\<rparr>)"
proof -
  let ?batch = "[alpha_show, broken_show, alpha_show]"
  have ne: "?batch \<noteq> []" by simp
  have i: "(1::nat) < length ?batch" by simp
  have g: "guids broken_show = Inl OtherException" by (simp add: broken_show_def)
  have t: "fst (process_single_show_try steady_env (?batch ! 1)
                 (world_before steady_env ?batch initial_world 1)) = Inl OtherException"
    by (simp add: process_single_show_try_def broken_show_def Let_def)
  from batch_isolation [where e = steady_env and batch = ?batch and w = initial_world] ne
  obtain records m where
    r: "fst (get_show_details steady_env ?batch initial_world) = Inr (records, m)"
    and len: "length records = length ?batch"
    and nth: "\<forall>i < length ?batch. records ! i =
      (case fst (process_single_show_try steady_env (?batch ! i)
                   (world_before steady_env ?batch initial_world i)) of
         Inr d \<Rightarrow> d\<lparr>max_seasons := None\<rparr>
       | Inl ex \<Rightarrow> \<lparr>metadata = [(''Title'', title (?batch ! i))], seasons_in_plex = [],
                    tvmaze_info = None, max_seasons = None\<rparr>)"
    by blast
  from nth i have "records ! 1 =
      (case fst (process_single_show_try steady_env (?batch ! 1)
                   (world_before steady_env ?batch initial_world 1)) of
         Inr d \<Rightarrow> d\<lparr>max_seasons := None\<rparr>
       | Inl ex \<Rightarrow> \<lparr>metadata = [(''Title'', title (?batch ! 1))], seasons_in_plex = [],
                    tvmaze_info = None, max_seasons = None\<rparr>)"
    by blast
  with t have "records ! 1 =
      \<lparr>metadata = [(''Title'', ''Beta'')], seasons_in_plex = [], tvmaze_info = None,
       max_seasons = None\<rparr>"
    by (simp add: broken_show_def)
  with r len have "\<exists>records m.
         fst (get_show_details steady_env ?batch initial_world) = Inr (records, m)
         \<and> length records = 3
         \<and> records ! 1 = \<lparr>metadata = [(''Title'', ''Beta'')], seasons_in_plex = [],
                           tvmaze_info = None, max_seasons = None\<rparr>"
    by simp
  with ne i g t show ?thesis by blast
qed

text \<open>
  C9. For a batch that is not empty, the second component that \<open>get_show_details\<close>
  returns is the largest \<open>max_seasons\<close> value among the processed shows, counted from 0:
  it is at least the contribution of every show, the contribution of a show is the
  \<open>total_seasons\<close> of its TVMaze information (0 without), and when no contribution is
  negative it is the contribution of one of the shows.
\<close>

theorem max_seasons_aggregation:
  "batch \<noteq> [] \<longrightarrow>
     (\<exists>records m. fst (get_show_details e batch w) = Inr (records, m)
        \<and> m = Max (insert 0 ((\<lambda>d. fst (pop_max_seasons d))
                                ` set (fst (executor_map (process_single_show e) batch w))))
        \<and> (\<forall>d \<in> set (fst (executor_map (process_single_show e) batch w)).
              fst (pop_max_seasons d) \<le> m
              \<and> fst (pop_max_seasons d) =
                  (case tvmaze_info d of None \<Rightarrow> 0 | Some info \<Rightarrow> total_seasons info))
        \<and> ((\<forall>d \<in> set (fst (executor_map (process_single_show e) batch w)).
               0 \<le> fst (pop_max_seasons d)) \<longrightarrow>
            m \<in> (\<lambda>d. fst (pop_max_seasons d))
                   ` set (fst (executor_map (process_single_show e) batch w))))"
proof
  assume ne: "batch \<noteq> []"
  let ?results = "fst (executor_map (process_single_show e) batch w)"
  let ?c = "\<lambda>d. fst (pop_max_seasons d)"
  let ?m = "Max (insert 0 (?c ` set ?results))"
  have ret: "fst (get_show_details e batch w) = Inr (map (\<lambda>d. snd (pop_max_seasons d)) ?results, ?m)"
    by (simp add: get_show_details_eq [OF ne])
  have ge: "\<forall>d \<in> set ?results. ?c d \<le> ?m"
    by (auto intro: Max_ge)
  have contrib: "\<forall>d \<in> set ?results.
      ?c d = (case tvmaze_info d of None \<Rightarrow> 0 | Some info \<Rightarrow> total_seasons info)"
  proof
    fix d assume "d \<in> set ?results"
    then obtain x w' where "d = fst (process_single_show e x w')"
      using in_executor_map [of d "process_single_show e" batch w] by blast
    then show "?c d = (case tvmaze_info d of None \<Rightarrow> 0 | Some info \<Rightarrow> total_seasons info)"
      by (simp add: pop_max_seasons_def max_seasons_of_processed)
  qed
  have attained: "?m \<in> ?c ` set ?results" if nonneg: "\<forall>d \<in> set ?results. 0 \<le> ?c d"
  proof -
    from ne have "?results \<noteq> []"
      using length_executor_map [of "process_single_show e" batch w] by auto
    then have nonempty: "?c ` set ?results \<noteq> {}" by simp
    have "?m = max 0 (Max (?c ` set ?results))"
      using nonempty by simp
    also have "\<dots> = Max (?c ` set ?results)"
      using nonempty nonneg by (simp add: max_def Max_ge_iff)
    also have "\<dots> \<in> ?c ` set ?results"
      using nonempty by (intro Max_in) auto
    finally show ?thesis .
  qed
  from ret ge contrib attained
  show "\<exists>records m. fst (get_show_details e batch w) = Inr (records, m)
        \<and> m = ?m
        \<and> (\<forall>d \<in> set ?results.
              ?c d \<le> m
              \<and> ?c d = (case tvmaze_info d of None \<Rightarrow> 0 | Some info \<Rightarrow> total_seasons info))
        \<and> ((\<forall>d \<in> set ?results. 0 \<le> ?c d) \<longrightarrow> m \<in> ?c ` set ?results)"
    by blast
qed

theorem max_seasons_aggregation_witness:
  "[alpha_show, broken_show, alpha_show] \<noteq> []
   \<and> map (\<lambda>d. fst (pop_max_seasons d))
        (fst (executor_map (process_single_show steady_env) [alpha_show, broken_show, alpha_show]
                initial_world)) = [2, 0, 2]
   \<and> (\<exists>records.
         fst (get_show_details steady_env [alpha_show, broken_show, alpha_show] initial_world)
           = Inr (records, 2))"
proof -
  let ?batch = "[alpha_show, broken_show, alpha_show]"
  let ?results = "fst (executor_map (process_single_show steady_env) ?batch initial_world)"
  have ne: "?batch \<noteq> []" by simp
  have c: "map (\<lambda>d. fst (pop_max_seasons d)) ?results = [2, 0, 2]"
    by code_simp
  from max_seasons_aggregation [where e = steady_env and batch = ?batch and w = initial_world] ne
  obtain records m where
    r: "fst (get_show_details steady_env ?batch initial_world) = Inr (records, m)"
    and m: "m = Max (insert 0 ((\<lambda>d. fst (pop_max_seasons d)) ` set ?results))"
    by blast
  have "m = Max (insert 0 (set (map (\<lambda>d. fst (pop_max_seasons d)) ?results)))"
    using m by simp
  also have "\<dots> = 2" unfolding c by simp
  finally have "m = 2" .
  with r have "\<exists>records. fst (get_show_details steady_env ?batch initial_world) = Inr (records, 2)"
    by blast
  with ne c show ?thesis by blast
qed

section \<open>Season columns\<close>

lemma digit_value_digit_char: "d < 10 \<Longrightarrow> digit_value (digit_char d) = Some d"
proof -
  assume "d < 10"
  then have "d \<in> {0, 1, 2, 3, 4, 5, 6, 7, 8, 9}" by auto
  then show ?thesis
    by (auto simp add: digit_value_def digit_char_def)
qed

lemma digits_value_append:
  "digits_value (xs @ ys) acc =
     (case digits_value xs acc of None \<Rightarrow> None | Some a \<Rightarrow> digits_value ys a)"
  by (induction xs arbitrary: acc) (simp_all split: option.splits)

lemma digits_value_str_nat: "digits_value (str_nat n) 0 = Some n"
proof (induction n rule: str_nat.induct)
  case (1 n)
  show ?case
  proof (cases "n < 10")
    case True
    then show ?thesis by (simp add: str_nat.simps [of n] digit_value_digit_char)
  next
    case False
    with 1 have "digits_value (str_nat (n div 10)) 0 = Some (n div 10)" by simp
    with False show ?thesis
      by (simp add: str_nat.simps [of n] digits_value_append digit_value_digit_char)
  qed
qed

lemma str_nat_nonempty: "str_nat n \<noteq> []"
  by (subst str_nat.simps) simp

lemma digit_value_hd:
  assumes "digits_value s acc = Some n" and "s \<noteq> []"
  shows "hd s \<noteq> CHR ''-'' \<and> hd s \<noteq> CHR ''+''"
proof (cases s)
  case Nil
  with assms(2) show ?thesis by simp
next
  case (Cons c cs)
  with assms(1) have "digit_value c \<noteq> None" by (auto split: option.splits)
  then have "c \<noteq> CHR ''-'' \<and> c \<noteq> CHR ''+''"
    by (auto simp add: digit_value_def)
  with Cons show ?thesis by simp
qed

lemma py_int_digits:
  assumes "digits_value s 0 = Some n" and "s \<noteq> []"
  shows "py_int s = Inr (int n)"
  using assms digit_value_hd [OF assms] by (simp add: py_int_def Let_def)

lemma py_int_fmt_02d: "0 \<le> i \<Longrightarrow> py_int (fmt_02d i) = Inr i"
proof -
  assume i: "0 \<le> i"
  have zero: "digit_value CHR ''0'' = Some 0" by (simp add: digit_value_def)
  show ?thesis
  proof (cases "i < 10")
    case True
    have "digits_value (CHR ''0'' # str_nat (nat i)) 0 = Some (nat i)"
      by (simp add: zero digits_value_str_nat)
    then have "py_int (CHR ''0'' # str_nat (nat i)) = Inr (int (nat i))"
      by (rule py_int_digits) simp
    with i True show ?thesis by (simp add: fmt_02d_def)
  next
    case False
    have "py_int (str_nat (nat i)) = Inr (int (nat i))"
      by (rule py_int_digits [OF digits_value_str_nat str_nat_nonempty])
    with i False show ?thesis by (simp add: fmt_02d_def)
  qed
qed

lemma season_header_not_specials: "1 \<le> i \<Longrightarrow> CHR ''S'' # fmt_02d i \<noteq> ''S00''"
proof
  assume i: "1 \<le> i" and eq: "CHR ''S'' # fmt_02d i = ''S00''"
  from i have "py_int (fmt_02d i) = Inr i" by (simp add: py_int_fmt_02d)
  moreover from eq have "fmt_02d i = ''00''" by simp
  moreover have "py_int ''00'' = Inr 0" by (simp add: py_int_def digit_value_def Let_def)
  ultimately show False using i by simp
qed

lemma selected_show_fields_subset:
  "set (SELECTED_SHOW_FIELDS e) \<subseteq> set ALL_POSSIBLE_SHOW_FIELDS"
  by (auto simp add: SELECTED_SHOW_FIELDS_def DEFAULT_SHOW_FIELDS_def ALL_POSSIBLE_SHOW_FIELDS_def
        Let_def split: option.splits)

lemma specials_not_a_field: "''S00'' \<notin> set (SELECTED_SHOW_FIELDS e)"
proof -
  have "''S00'' \<notin> set ALL_POSSIBLE_SHOW_FIELDS"
    by (simp add: ALL_POSSIBLE_SHOW_FIELDS_def)
  with selected_show_fields_subset show ?thesis by blast
qed

lemma set_range_py: "set (range_py lo hi) = {lo..hi - 1}"
  by (simp add: range_py_def)

lemma write_season_cells_headers:
  "\<forall>i \<in> set is. 0 \<le> i \<Longrightarrow>
     write_season_cells ti plex (map (\<lambda>i. CHR ''S'' # fmt_02d i) is) =
       Inr (map (\<lambda>i. (i, calculate_season_cell i ti plex)) is)"
  by (induction "is") (simp_all add: py_int_fmt_02d)

text \<open>
  C10. The header \<open>S00\<close> is among the headers of the sheet, and among the season headers,
  exactly when some show of the batch has season 0 in its Plex seasons; the TVMaze
  information plays no part. When no show has a local season 0, the row of every show
  has season cells for the seasons 1 up to the overall maximum only, so that a season 0
  known to TVMaze alone is not written.
\<close>

theorem specials_column:
  "(''S00'' \<in> set (fst (generate_tv_show_headers e shows_data m))
      \<longleftrightarrow> (\<exists>d \<in> set shows_data. 0 \<in> fst ` set (seasons_in_plex d)))
   \<and> (''S00'' \<in> set (snd (generate_tv_show_headers e shows_data m))
      \<longleftrightarrow> (\<exists>d \<in> set shows_data. 0 \<in> fst ` set (seasons_in_plex d)))
   \<and> ((\<forall>d \<in> set shows_data. 0 \<notin> fst ` set (seasons_in_plex d)) \<longrightarrow>
        (\<forall>d \<in> set shows_data.
           \<exists>row. write_tv_show_row e d (snd (generate_tv_show_headers e shows_data m)) = Inr row
                 \<and> map fst (season_cells row) = [1..m]))"
proof -
  let ?has = "\<exists>d \<in> set shows_data. 0 \<in> fst ` set (seasons_in_plex d)"
  let ?numbered = "map (\<lambda>i. CHR ''S'' # fmt_02d i) (range_py 1 (m + 1))"
  have hs: "list_ex (\<lambda>show_dict. 0 \<in> set (map fst (seasons_in_plex show_dict))) shows_data = ?has"
    by (simp add: list_ex_iff)
  have numbered: "''S00'' \<notin> set ?numbered"
  proof
    assume "''S00'' \<in> set ?numbered"
    then obtain i where i: "1 \<le> i" and eq: "''S00'' = CHR ''S'' # fmt_02d i"
      by (auto simp add: set_range_py)
    from season_header_not_specials [OF i] eq show False by simp
  qed
  have season_headers: "snd (generate_tv_show_headers e shows_data m) =
      (if ?has then [''S00''] else []) @ ?numbered"
    unfolding generate_tv_show_headers_def Let_def hs by simp
  have final_headers: "fst (generate_tv_show_headers e shows_data m) =
      SELECTED_SHOW_FIELDS e @ [''Series Complete (Plex/TVMaze)'']
        @ snd (generate_tv_show_headers e shows_data m)"
    unfolding generate_tv_show_headers_def Let_def by simp
  have in_season: "''S00'' \<in> set (snd (generate_tv_show_headers e shows_data m)) \<longleftrightarrow> ?has"
    using numbered by (simp add: season_headers)
  have in_final: "''S00'' \<in> set (fst (generate_tv_show_headers e shows_data m)) \<longleftrightarrow> ?has"
    using in_season specials_not_a_field [of e] by (simp add: final_headers)
  have rows: "\<exists>row. write_tv_show_row e d (snd (generate_tv_show_headers e shows_data m)) = Inr row
                 \<and> map fst (season_cells row) = [1..m]"
    if "\<not> ?has" for d
  proof -
    from that have "snd (generate_tv_show_headers e shows_data m) = ?numbered"
      by (simp add: season_headers)
    moreover have "write_season_cells (tvmaze_info d) (seasons_in_plex d) ?numbered =
        Inr (map (\<lambda>i. (i, calculate_season_cell i (tvmaze_info d) (seasons_in_plex d)))
               (range_py 1 (m + 1)))"
      by (rule write_season_cells_headers) (simp add: set_range_py)
    ultimately show ?thesis
      by (simp add: write_tv_show_row_def range_py_def comp_def)
  qed
  from in_final in_season rows show ?thesis by blast
qed

theorem specials_column_witness:
  "list_all (\<lambda>d. 0 \<notin> fst ` set (seasons_in_plex d)) [remote_specials_only]
   \<and> map_of (seasons (the (tvmaze_info remote_specials_only))) 0 = Some \<lparr>total_episodes = 4\<rparr>
   \<and> ''S00'' \<notin> set (fst (generate_tv_show_headers steady_env [remote_specials_only] 2))
   \<and> snd (generate_tv_show_headers steady_env [remote_specials_only] 2) = [''S01'', ''S02'']
   \<and> (\<exists>row. write_tv_show_row steady_env remote_specials_only
               (snd (generate_tv_show_headers steady_env [remote_specials_only] 2)) = Inr row
             \<and> map fst (season_cells row) = [1, 2])"
proof -
  have local: "\<forall>d \<in> set [remote_specials_only]. 0 \<notin> fst ` set (seasons_in_plex d)"
    by (simp add: remote_specials_only_def)
  have remote: "map_of (seasons (the (tvmaze_info remote_specials_only))) 0 = Some \<lparr>total_episodes = 4\<rparr>"
    by (simp add: remote_specials_only_def)
  have headers: "snd (generate_tv_show_headers steady_env [remote_specials_only] 2) = [''S01'', ''S02'']"
    by code_simp
  have upto: "[1..2::int] = [1, 2]" by code_simp
  note col = specials_column [where e = steady_env and shows_data = "[remote_specials_only]" and m = 2]
  from col local have "''S00'' \<notin> set (fst (generate_tv_show_headers steady_env [remote_specials_only] 2))"
    by blast
  moreover from col local have "\<exists>row. write_tv_show_row steady_env remote_specials_only
               (snd (generate_tv_show_headers steady_env [remote_specials_only] 2)) = Inr row
             \<and> map fst (season_cells row) = [1..2]"
    by simp
  ultimately show ?thesis using local remote headers upto by (simp add: list_all_iff)
qed

end
